theory Spec2Isabelle
  imports Main
begin

section \<open>JavaScript values\<close>

text \<open>
  The library works on untyped JavaScript data: items, condition documents and operands
  are all plain values. A number is an integer or \<open>NaN\<close> (the code under study only
  compares numbers, it never computes with them; fractions and infinities are left out).
  A date carries its time stamp in milliseconds (\<open>NaN\<close> for an invalid date), a regular
  expression its source and flags, and an object its enumerable properties in
  enumeration order (keys are expected to be distinct). A function is a built-in one,
  such as the methods every object inherits, and is known by its name.
\<close>

datatype jsnum = NaN | Fin int

datatype jsval =
    Undefined
  | Null
  | Bool bool
  | Num jsnum
  | Str string
  | Date jsnum
  | Regex string string
  | Arr "jsval list"
  | Obj "(string \<times> jsval) list"
  | Func string

text \<open>
  Nothing in the source raises explicitly; what can go wrong is a run-time
  \<open>TypeError\<close> (a property read on \<open>undefined\<close>/\<open>null\<close>, a call of something that is
  not a function) and the \<open>SyntaxError\<close> of \<open>new RegExp\<close> on an invalid pattern.
\<close>

datatype error = TypeError | SyntaxError

text \<open>
  The collaborators that are not part of the repository: the \<open>deep-equal\<close> package
  (always called with \<open>strict: true\<close>), the regular-expression engine, date parsing,
  the conversions between numbers, dates, functions and text, and the properties a value
  has from the language itself (inherited from a built-in prototype, or own and not
  enumerable), \<open>undefined\<close> where there is none. They are parameters of the model.
\<close>

record host =
  deepEqual :: "jsval \<Rightarrow> jsval \<Rightarrow> bool"
  dateParse :: "string \<Rightarrow> jsnum"
  regexValid :: "string \<Rightarrow> bool"
  regexTest :: "string \<Rightarrow> string \<Rightarrow> string \<Rightarrow> bool"
  stringToNumber :: "string \<Rightarrow> jsnum"
  numberToString :: "jsnum \<Rightarrow> string"
  dateToString :: "jsnum \<Rightarrow> string"
  functionToString :: "string \<Rightarrow> string"
  builtinProp :: "jsval \<Rightarrow> string \<Rightarrow> jsval"

type_synonym predicate = "jsval \<Rightarrow> error + jsval"

subsection \<open>Truthiness, typeof, property access\<close>

fun truthy :: "jsval \<Rightarrow> bool" where
  "truthy Undefined = False"
| "truthy Null = False"
| "truthy (Bool b) = b"
| "truthy (Num NaN) = False"
| "truthy (Num (Fin n)) = (n \<noteq> 0)"
| "truthy (Str s) = (s \<noteq> [])"
| "truthy (Date t) = True"
| "truthy (Regex s f) = True"
| "truthy (Arr xs) = True"
| "truthy (Obj kvs) = True"
| "truthy (Func f) = True"

text \<open>\<open>typeof v === "object"\<close> (a function's type is \<open>"function"\<close>)\<close>

fun isObject :: "jsval \<Rightarrow> bool" where
  "isObject Null = True"
| "isObject (Date t) = True"
| "isObject (Regex s f) = True"
| "isObject (Arr xs) = True"
| "isObject (Obj kvs) = True"
| "isObject v = False"

text \<open>The decimal name of an array index, as \<open>for ... in\<close> and \<open>item[key]\<close> see it.\<close>

fun decimal :: "nat \<Rightarrow> string" where
  "decimal n =
     (if n < 10 then [''0123456789'' ! n]
      else decimal (n div 10) @ [''0123456789'' ! (n mod 10)])"

declare decimal.simps [simp del]

text \<open>
  The properties \<open>for (key in v)\<close> enumerates, each with \<open>v[key]\<close>: an object's own
  properties, an array's elements and a string's characters under their indices, and
  nothing for any other value (\<open>undefined\<close> and \<open>null\<close> included: the loop body is
  skipped).
\<close>

fun entries :: "jsval \<Rightarrow> (string \<times> jsval) list" where
  "entries (Obj kvs) = kvs"
| "entries (Arr xs) = zip (map decimal [0..<length xs]) xs"
| "entries (Str s) = zip (map decimal [0..<length s]) (map (\<lambda>c. Str [c]) s)"
| "entries v = []"

text \<open>
  \<open>item[key]\<close>: a \<open>TypeError\<close> on \<open>undefined\<close> and \<open>null\<close>; otherwise the value's own
  enumerable property of that name, the \<open>length\<close> of an array or a string, or else what
  the language provides under that name (\<open>item["constructor"]\<close> is a function on every
  object), \<open>undefined\<close> when there is nothing.
\<close>

fun lengthOf :: "jsval \<Rightarrow> jsval" where
  "lengthOf (Arr xs) = Num (Fin (int (length xs)))"
| "lengthOf (Str s) = Num (Fin (int (length s)))"
| "lengthOf v = Undefined"

definition getProp :: "host \<Rightarrow> jsval \<Rightarrow> string \<Rightarrow> error + jsval" where
  "getProp h item key =
     (if item = Undefined \<or> item = Null then Inl TypeError
      else case map_of (entries item) key of
             Some v \<Rightarrow> Inr v
           | None \<Rightarrow>
               if key = ''length'' \<and> lengthOf item \<noteq> Undefined then Inr (lengthOf item)
               else Inr (builtinProp h item key))"

subsection \<open>Conversions and comparison\<close>

fun joinComma :: "string list \<Rightarrow> string" where
  "joinComma [] = []"
| "joinComma [x] = x"
| "joinComma (x # y # ys) = x @ '','' @ joinComma (y # ys)"

text \<open>\<open>ToString\<close>: the text coercion \<open>RegExp.prototype.test\<close> and
  \<open>String.prototype.includes\<close> apply to their argument.\<close>

fun toText :: "host \<Rightarrow> jsval \<Rightarrow> string" where
  "toText h Undefined = ''undefined''"
| "toText h Null = ''null''"
| "toText h (Bool b) = (if b then ''true'' else ''false'')"
| "toText h (Num n) = numberToString h n"
| "toText h (Str s) = s"
| "toText h (Date t) = dateToString h t"
| "toText h (Regex s f) = ''/'' @ s @ ''/'' @ f"
| "toText h (Arr xs) =
     joinComma (map (\<lambda>x. if x = Undefined \<or> x = Null then [] else toText h x) xs)"
| "toText h (Obj kvs) = ''[object Object]''"
| "toText h (Func f) = functionToString h f"

text \<open>\<open>ToPrimitive\<close> with hint number, as the relational operators apply it.\<close>

fun toPrimitive :: "host \<Rightarrow> jsval \<Rightarrow> jsval" where
  "toPrimitive h (Date t) = Num t"
| "toPrimitive h (Regex s f) = Str (toText h (Regex s f))"
| "toPrimitive h (Arr xs) = Str (toText h (Arr xs))"
| "toPrimitive h (Obj kvs) = Str (toText h (Obj kvs))"
| "toPrimitive h (Func f) = Str (toText h (Func f))"
| "toPrimitive h v = v"

text \<open>\<open>ToNumber\<close> of a primitive value.\<close>

fun toNumber :: "host \<Rightarrow> jsval \<Rightarrow> jsnum" where
  "toNumber h Undefined = NaN"
| "toNumber h Null = Fin 0"
| "toNumber h (Bool b) = Fin (if b then 1 else 0)"
| "toNumber h (Num n) = n"
| "toNumber h (Str s) = stringToNumber h s"
| "toNumber h v = NaN"

fun numLess :: "jsnum \<Rightarrow> jsnum \<Rightarrow> bool option" where
  "numLess (Fin a) (Fin b) = Some (a < b)"
| "numLess a b = None"

text \<open>Strings compare by code units, lexicographically.\<close>

fun strLess :: "string \<Rightarrow> string \<Rightarrow> bool" where
  "strLess [] [] = False"
| "strLess [] (b # bs) = True"
| "strLess (a # as) [] = False"
| "strLess (a # as) (b # bs) =
     (if a = b then strLess as bs else (of_char a :: nat) < of_char b)"

text \<open>
  The abstract relational comparison \<open>x < y\<close> on primitives: \<open>Some True\<close>, \<open>Some False\<close>,
  or \<open>None\<close> (undefined) when a side is \<open>NaN\<close>.
\<close>

fun primLess :: "host \<Rightarrow> jsval \<Rightarrow> jsval \<Rightarrow> bool option" where
  "primLess h (Str s) (Str t) = Some (strLess s t)"
| "primLess h x y = numLess (toNumber h x) (toNumber h y)"

definition relCompare :: "host \<Rightarrow> jsval \<Rightarrow> jsval \<Rightarrow> bool option" where
  "relCompare h x y = primLess h (toPrimitive h x) (toPrimitive h y)"

definition jsLess :: "host \<Rightarrow> jsval \<Rightarrow> jsval \<Rightarrow> bool" where
  "jsLess h a b = (relCompare h a b = Some True)"

definition jsGreater :: "host \<Rightarrow> jsval \<Rightarrow> jsval \<Rightarrow> bool" where
  "jsGreater h a b = (relCompare h b a = Some True)"

definition jsLessEqual :: "host \<Rightarrow> jsval \<Rightarrow> jsval \<Rightarrow> bool" where
  "jsLessEqual h a b = (relCompare h b a = Some False)"

definition jsGreaterEqual :: "host \<Rightarrow> jsval \<Rightarrow> jsval \<Rightarrow> bool" where
  "jsGreaterEqual h a b = (relCompare h a b = Some False)"

text \<open>
  \<open>a === b\<close>. Two objects are strictly equal only when they are the same object, an
  identity the value model does not carry; the program applies \<open>===\<close> only with a
  right operand that is not an object (or is \<open>null\<close>), where the answer is by value.
  Two built-in functions are the same when they have the same name.
\<close>

fun strictEquals :: "jsval \<Rightarrow> jsval \<Rightarrow> bool" where
  "strictEquals Undefined Undefined = True"
| "strictEquals Null Null = True"
| "strictEquals (Bool a) (Bool b) = (a = b)"
| "strictEquals (Num (Fin a)) (Num (Fin b)) = (a = b)"
| "strictEquals (Str s) (Str t) = (s = t)"
| "strictEquals (Func f) (Func g) = (f = g)"
| "strictEquals a b = False"

section \<open>The program\<close>

subsection \<open>\<open>includes\<close> and \<open>isCondition\<close>\<close>

text \<open>\<open>String.prototype.includes\<close> on texts: substring search from position 0.\<close>

fun isPrefix :: "string \<Rightarrow> string \<Rightarrow> bool" where
  "isPrefix [] s = True"
| "isPrefix (a # as) [] = False"
| "isPrefix (a # as) (b # bs) = (a = b \<and> isPrefix as bs)"

fun isSubstring :: "string \<Rightarrow> string \<Rightarrow> bool" where
  "isSubstring p [] = (p = [])"
| "isSubstring p (c # cs) = (isPrefix p (c # cs) \<or> isSubstring p cs)"

text \<open>
  \<open>includes(arr, value)\<close>. On a string it is \<open>arr.includes(value)\<close>, which refuses a
  regular expression and coerces anything else to text. Otherwise it is
  \<open>arr.find(item => deepEqual(item, value, {strict: true}))\<close>: the result is the element
  found, or \<open>undefined\<close>, not a boolean; a value with no \<open>find\<close> method is a
  \<open>TypeError\<close>.
\<close>

fun includes_js :: "host \<Rightarrow> jsval \<Rightarrow> jsval \<Rightarrow> error + jsval" where
  "includes_js h (Str s) v =
     (case v of Regex src fl \<Rightarrow> Inl TypeError
      | _ \<Rightarrow> Inr (Bool (isSubstring (toText h v) s)))"
| "includes_js h (Arr xs) v =
     Inr (case find (\<lambda>item. deepEqual h item v) xs of Some x \<Rightarrow> x | None \<Rightarrow> Undefined)"
| "includes_js h arr v = Inl TypeError"

definition operatorKeys :: "string list" where
  "operatorKeys =
     [''$less'', ''$lessEqual'', ''$greater'', ''$greaterEqual'', ''$equal'', ''$not'',
      ''$dateBefore'', ''$dateAfter'', ''$or'', ''$nor'', ''$and'', ''$in'', ''$notIn'',
      ''$contains'', ''$notContains'', ''$match'']"

text \<open>
  \<open>key in arg\<close> for the operator names: none of them is a property of a built-in
  prototype, an array index or \<open>length\<close>, so only an own property of a plain object
  answers.
\<close>

definition hasKey :: "jsval \<Rightarrow> string \<Rightarrow> bool" where
  "hasKey arg key = (key \<in> set (map fst (entries arg)) \<or> (key = ''length'' \<and> lengthOf arg \<noteq> Undefined))"

definition isCondition :: "jsval \<Rightarrow> bool" where
  "isCondition arg =
     (if \<not> truthy arg \<or> \<not> isObject arg then False
      else list_ex (\<lambda>key. hasKey arg key) operatorKeys)"

subsection \<open>The predicates \<open>parseCondition\<close> emits\<close>

text \<open>
  Each arrow function pushed by the source is a closure over the property name and the
  operand; here it is a function of its own, applied to the captured values.
\<close>

definition lessPred :: "host \<Rightarrow> string \<Rightarrow> jsval \<Rightarrow> predicate" where
  "lessPred h propName conditionValue item =
     (case getProp h item propName of Inl e \<Rightarrow> Inl e
      | Inr v \<Rightarrow> Inr (Bool (jsLess h v conditionValue)))"

definition greaterPred :: "host \<Rightarrow> string \<Rightarrow> jsval \<Rightarrow> predicate" where
  "greaterPred h propName conditionValue item =
     (case getProp h item propName of Inl e \<Rightarrow> Inl e
      | Inr v \<Rightarrow> Inr (Bool (jsGreater h v conditionValue)))"

definition lessEqualPred :: "host \<Rightarrow> string \<Rightarrow> jsval \<Rightarrow> predicate" where
  "lessEqualPred h propName conditionValue item =
     (case getProp h item propName of Inl e \<Rightarrow> Inl e
      | Inr v \<Rightarrow> Inr (Bool (jsLessEqual h v conditionValue)))"

definition greaterEqualPred :: "host \<Rightarrow> string \<Rightarrow> jsval \<Rightarrow> predicate" where
  "greaterEqualPred h propName conditionValue item =
     (case getProp h item propName of Inl e \<Rightarrow> Inl e
      | Inr v \<Rightarrow> Inr (Bool (jsGreaterEqual h v conditionValue)))"

definition notPred :: "host \<Rightarrow> string \<Rightarrow> jsval \<Rightarrow> predicate" where
  "notPred h propName conditionValue item =
     (case getProp h item propName of Inl e \<Rightarrow> Inl e
      | Inr v \<Rightarrow> Inr (Bool (\<not> deepEqual h v conditionValue)))"

definition equalPred :: "host \<Rightarrow> string \<Rightarrow> jsval \<Rightarrow> predicate" where
  "equalPred h propName conditionValue item =
     (case getProp h item propName of Inl e \<Rightarrow> Inl e
      | Inr v \<Rightarrow> Inr (Bool (deepEqual h v conditionValue)))"

text \<open>
  \<open>if (conditionValue instanceof Date) conditionValue = conditionValue.getTime()\<close>,
  done once when the condition is parsed.
\<close>

fun operandTime :: "jsval \<Rightarrow> jsval" where
  "operandTime (Date t) = Num t"
| "operandTime v = v"

text \<open>
  \<open>if (value instanceof Date) value = value.getTime();
   else if (typeof value === "string") value = new Date(value).getTime()\<close>,
  done on the item's field at each test.
\<close>

fun fieldTime :: "host \<Rightarrow> jsval \<Rightarrow> jsval" where
  "fieldTime h (Date t) = Num t"
| "fieldTime h (Str s) = Num (dateParse h s)"
| "fieldTime h v = v"

definition dateBeforePred :: "host \<Rightarrow> string \<Rightarrow> jsval \<Rightarrow> predicate" where
  "dateBeforePred h propName conditionValue item =
     (case getProp h item propName of Inl e \<Rightarrow> Inl e
      | Inr v \<Rightarrow> Inr (Bool (jsLess h (fieldTime h v) conditionValue)))"

definition dateAfterPred :: "host \<Rightarrow> string \<Rightarrow> jsval \<Rightarrow> predicate" where
  "dateAfterPred h propName conditionValue item =
     (case getProp h item propName of Inl e \<Rightarrow> Inl e
      | Inr v \<Rightarrow> Inr (Bool (jsGreater h (fieldTime h v) conditionValue)))"

text \<open>
  The three loops \<open>for (let predicate of conditions)\<close> of the field-scoped \<open>$or\<close>,
  \<open>$and\<close> and \<open>$nor\<close>, over the flat list \<open>conditions\<close>.
\<close>

fun orPred :: "predicate list \<Rightarrow> predicate" where
  "orPred [] item = Inr (Bool False)"
| "orPred (p # ps) item =
     (case p item of Inl e \<Rightarrow> Inl e
      | Inr r \<Rightarrow> if truthy r then Inr (Bool True) else orPred ps item)"

fun andPred :: "predicate list \<Rightarrow> predicate" where
  "andPred [] item = Inr (Bool True)"
| "andPred (p # ps) item =
     (case p item of Inl e \<Rightarrow> Inl e
      | Inr r \<Rightarrow> if \<not> truthy r then Inr (Bool False) else andPred ps item)"

fun norPred :: "predicate list \<Rightarrow> predicate" where
  "norPred [] item = Inr (Bool True)"
| "norPred (p # ps) item =
     (case p item of Inl e \<Rightarrow> Inl e
      | Inr r \<Rightarrow> if truthy r then Inr (Bool False) else norPred ps item)"

definition inPred :: "host \<Rightarrow> string \<Rightarrow> jsval \<Rightarrow> predicate" where
  "inPred h propName conditionValue item =
     (case getProp h item propName of Inl e \<Rightarrow> Inl e
      | Inr v \<Rightarrow> includes_js h conditionValue v)"

definition notInPred :: "host \<Rightarrow> string \<Rightarrow> jsval \<Rightarrow> predicate" where
  "notInPred h propName conditionValue item =
     (case getProp h item propName of Inl e \<Rightarrow> Inl e
      | Inr v \<Rightarrow> (case includes_js h conditionValue v of Inl e \<Rightarrow> Inl e
                 | Inr r \<Rightarrow> Inr (Bool (\<not> truthy r))))"

text \<open>
  \<open>for (let cond of conditionValue) { if (!includes(value, cond)) return false }
   return true\<close>
\<close>

fun includesAll :: "host \<Rightarrow> jsval \<Rightarrow> jsval list \<Rightarrow> error + jsval" where
  "includesAll h v [] = Inr (Bool True)"
| "includesAll h v (c # cs) =
     (case includes_js h v c of Inl e \<Rightarrow> Inl e
      | Inr r \<Rightarrow> if \<not> truthy r then Inr (Bool False) else includesAll h v cs)"

text \<open>
  \<open>for (let cond of conditionValue) { if (includes(value, cond)) return false }
   return true\<close>
\<close>

fun includesNone :: "host \<Rightarrow> jsval \<Rightarrow> jsval list \<Rightarrow> error + jsval" where
  "includesNone h v [] = Inr (Bool True)"
| "includesNone h v (c # cs) =
     (case includes_js h v c of Inl e \<Rightarrow> Inl e
      | Inr r \<Rightarrow> if truthy r then Inr (Bool False) else includesNone h v cs)"

text \<open>The source spells the array branch and the string branch out; they are the same text.\<close>

definition containsPred :: "host \<Rightarrow> string \<Rightarrow> jsval \<Rightarrow> predicate" where
  "containsPred h propName conditionValue item =
     (case getProp h item propName of Inl e \<Rightarrow> Inl e
      | Inr v \<Rightarrow>
          (case v of
             Arr xs \<Rightarrow> (case conditionValue of Arr cs \<Rightarrow> includesAll h v cs
                        | _ \<Rightarrow> includes_js h v conditionValue)
           | Str s \<Rightarrow> (case conditionValue of Arr cs \<Rightarrow> includesAll h v cs
                       | _ \<Rightarrow> includes_js h v conditionValue)
           | _ \<Rightarrow> Inr (Bool False)))"

definition notContainsPred :: "host \<Rightarrow> string \<Rightarrow> jsval \<Rightarrow> predicate" where
  "notContainsPred h propName conditionValue item =
     (case getProp h item propName of Inl e \<Rightarrow> Inl e
      | Inr v \<Rightarrow>
          (case v of
             Arr xs \<Rightarrow> (case conditionValue of Arr cs \<Rightarrow> includesNone h v cs
                        | _ \<Rightarrow> (case includes_js h v conditionValue of Inl e \<Rightarrow> Inl e
                                | Inr r \<Rightarrow> Inr (Bool (\<not> truthy r))))
           | Str s \<Rightarrow> (case conditionValue of Arr cs \<Rightarrow> includesNone h v cs
                       | _ \<Rightarrow> (case includes_js h v conditionValue of Inl e \<Rightarrow> Inl e
                               | Inr r \<Rightarrow> Inr (Bool (\<not> truthy r))))
           | _ \<Rightarrow> Inr (Bool False)))"

text \<open>
  \<open>conditionValue.test(item[propName])\<close>: a \<open>TypeError\<close> unless the operand is a regular
  expression (as given, or compiled from a string when the condition is parsed); the
  argument is coerced to text. \<open>regexTest h src fl text\<close> is the answer of \<open>test\<close> on an
  expression whose \<open>lastIndex\<close> is 0. Without the flags \<open>g\<close> and \<open>y\<close> that is every call:
  \<open>test\<close> neither reads nor writes \<open>lastIndex\<close>. With one of them \<open>test\<close> starts at
  \<open>lastIndex\<close> and moves it, a state the model does not carry: what is stated about
  \<open>$match\<close> on a given regular expression is stated for flags without \<open>g\<close> and \<open>y\<close>. An
  expression compiled from a string has no flags.
\<close>

definition matchPred :: "host \<Rightarrow> string \<Rightarrow> jsval \<Rightarrow> predicate" where
  "matchPred h propName conditionValue item =
     (case getProp h item propName of Inl e \<Rightarrow> Inl e
      | Inr v \<Rightarrow>
          (case conditionValue of
             Regex src fl \<Rightarrow> Inr (Bool (regexTest h src fl (toText h v)))
           | _ \<Rightarrow> Inl TypeError))"

subsection \<open>\<open>parseCondition\<close>\<close>

text \<open>
  The recursion of the parsers follows the nesting of the condition. Their termination
  is measured by the size of the values still to be visited.
\<close>

definition entryCost :: "jsval \<Rightarrow> nat" where
  "entryCost v = (case v of Str s \<Rightarrow> 0 | _ \<Rightarrow> 2 * size v + 2)"

definition docCost :: "jsval \<Rightarrow> nat" where
  "docCost v = (case v of Str s \<Rightarrow> 0 | _ \<Rightarrow> 2 * size v + 1)"

definition entriesCost :: "(string \<times> jsval) list \<Rightarrow> nat" where
  "entriesCost kvs = sum_list (map (\<lambda>kv. entryCost (snd kv)) kvs)"

definition branchesCost :: "jsval list \<Rightarrow> nat" where
  "branchesCost vs = sum_list (map entryCost vs)"

lemma entryCost_le: "entryCost v \<le> 2 * size v + 2"
  by (cases v) (simp_all add: entryCost_def)

lemma docCost_le_entryCost: "docCost v \<le> entryCost v"
  by (cases v) (simp_all add: entryCost_def docCost_def)

lemma docCost_less_entryCost: "isObject v \<Longrightarrow> docCost v < entryCost v"
  by (cases v) (simp_all add: entryCost_def docCost_def)

lemma branchesCost_le: "branchesCost vs \<le> 2 * size_list size vs"
proof (induction vs)
  case Nil
  show ?case by (simp add: branchesCost_def)
next
  case (Cons v vs)
  have "entryCost v \<le> 2 * size v + 2" by (rule entryCost_le)
  with Cons show ?case by (simp add: branchesCost_def)
qed

lemma branchesCost_Arr: "branchesCost vs < entryCost (Arr vs)"
  using branchesCost_le [of vs] by (simp add: entryCost_def)

lemma entriesCost_Obj: "entriesCost kvs \<le> 2 * size_list (size_prod (\<lambda>k. 0) size) kvs"
proof (induction kvs)
  case Nil
  show ?case by (simp add: entriesCost_def)
next
  case (Cons kv kvs)
  obtain k v where kv: "kv = (k, v)" by (cases kv)
  have "entryCost v \<le> 2 * size v + 2" by (rule entryCost_le)
  with Cons kv show ?case by (simp add: entriesCost_def)
qed

lemma entriesCost_zip:
  "length ks = length vs \<Longrightarrow> entriesCost (zip ks vs) = branchesCost vs"
  by (induction ks vs rule: list_induct2) (simp_all add: entriesCost_def branchesCost_def)

lemma branchesCost_chars: "branchesCost (map (\<lambda>c. Str [c]) s) = 0"
  by (induction s) (simp_all add: branchesCost_def entryCost_def)

lemma entriesCost_entries: "entriesCost (entries c) \<le> docCost c"
proof (cases c)
  case (Obj kvs)
  then show ?thesis using entriesCost_Obj [of kvs] by (simp add: docCost_def)
next
  case (Arr xs)
  have "entriesCost (zip (map decimal [0..<length xs]) xs) = branchesCost xs"
    by (rule entriesCost_zip) simp
  then show ?thesis using Arr branchesCost_le [of xs] by (simp add: docCost_def)
next
  case (Str s)
  have "entriesCost (zip (map decimal [0..<length s]) (map (\<lambda>c. Str [c]) s))
        = branchesCost (map (\<lambda>c. Str [c]) s)"
    by (rule entriesCost_zip) simp
  then show ?thesis using Str by (simp add: branchesCost_chars docCost_def)
qed (simp_all add: entriesCost_def docCost_def)

lemma entriesCost_Cons [simp]: "entriesCost ((k, v) # rest) = entryCost v + entriesCost rest"
  by (simp add: entriesCost_def)

lemma entriesCost_Nil [simp]: "entriesCost [] = 0"
  by (simp add: entriesCost_def)

lemma branchesCost_Cons [simp]: "branchesCost (v # vs) = entryCost v + branchesCost vs"
  by (simp add: branchesCost_def)

lemma branchesCost_Nil [simp]: "branchesCost [] = 0"
  by (simp add: branchesCost_def)

lemma entriesCost_entries_less:
  "entriesCost (entries c) \<noteq> docCost c \<Longrightarrow> entriesCost (entries c) < docCost c"
  using entriesCost_entries [of c] by simp

lemma branchesCost_Arr_less: "branchesCost vs < entryCost (Arr vs) + n"
  using branchesCost_Arr [of vs] by simp

lemma docCost_entryCost_less:
  "docCost c \<noteq> entryCost c + n \<Longrightarrow> docCost c < entryCost c + n"
  using docCost_le_entryCost [of c] by simp

text \<open>
  \<open>parseCondition(propName, condition, filterPredicates)\<close> appends to the array it is
  given; the model returns the extended array. \<open>parseOperators\<close> is its loop
  \<open>for (let conditionKey in condition)\<close>, \<open>parseOperator\<close> the body of that loop for one
  key (the \<open>if\<close> chain, in the source's order), and \<open>parseEach\<close> is
  \<open>conditionValue.forEach((condition) => parseCondition(propName, condition, conditions))\<close>,
  which feeds every branch into the same array \<open>conditions\<close>. \<open>forEach\<close> exists on arrays
  only: any other operand is a \<open>TypeError\<close>.
\<close>

function parseCondition :: "host \<Rightarrow> string \<Rightarrow> jsval \<Rightarrow> predicate list \<Rightarrow> error + predicate list"
  and parseOperators :: "host \<Rightarrow> string \<Rightarrow> (string \<times> jsval) list \<Rightarrow> predicate list \<Rightarrow> error + predicate list"
  and parseOperator :: "host \<Rightarrow> string \<Rightarrow> string \<Rightarrow> jsval \<Rightarrow> predicate list \<Rightarrow> error + predicate list"
  and parseEach :: "host \<Rightarrow> string \<Rightarrow> jsval list \<Rightarrow> predicate list \<Rightarrow> error + predicate list"
where
  "parseCondition h propName condition filterPredicates =
     parseOperators h propName (entries condition) filterPredicates"
| "parseOperators h propName [] filterPredicates = Inr filterPredicates"
| "parseOperators h propName ((conditionKey, conditionValue) # rest) filterPredicates =
     (case parseOperator h propName conditionKey conditionValue filterPredicates of
        Inl e \<Rightarrow> Inl e
      | Inr filterPredicates' \<Rightarrow> parseOperators h propName rest filterPredicates')"
| "parseOperator h propName conditionKey conditionValue filterPredicates =
     (if conditionValue = Undefined then Inr filterPredicates
      else if conditionKey = ''$less'' then
        Inr (filterPredicates @ [lessPred h propName conditionValue])
      else if conditionKey = ''$greater'' then
        Inr (filterPredicates @ [greaterPred h propName conditionValue])
      else if conditionKey = ''$lessEqual'' then
        Inr (filterPredicates @ [lessEqualPred h propName conditionValue])
      else if conditionKey = ''$greaterEqual'' then
        Inr (filterPredicates @ [greaterEqualPred h propName conditionValue])
      else if conditionKey = ''$not'' then
        Inr (filterPredicates @ [notPred h propName conditionValue])
      else if conditionKey = ''$equal'' then
        Inr (filterPredicates @ [equalPred h propName conditionValue])
      else if conditionKey = ''$dateBefore'' then
        Inr (filterPredicates @ [dateBeforePred h propName (operandTime conditionValue)])
      else if conditionKey = ''$dateAfter'' then
        Inr (filterPredicates @ [dateAfterPred h propName (operandTime conditionValue)])
      else if conditionKey = ''$or'' then
        (case conditionValue of
           Arr branches \<Rightarrow>
             (case parseEach h propName branches [] of
                Inl e \<Rightarrow> Inl e
              | Inr conditions \<Rightarrow> Inr (filterPredicates @ [orPred conditions]))
         | _ \<Rightarrow> Inl TypeError)
      else if conditionKey = ''$and'' then
        (case conditionValue of
           Arr branches \<Rightarrow>
             (case parseEach h propName branches [] of
                Inl e \<Rightarrow> Inl e
              | Inr conditions \<Rightarrow> Inr (filterPredicates @ [andPred conditions]))
         | _ \<Rightarrow> Inl TypeError)
      else if conditionKey = ''$nor'' then
        (case conditionValue of
           Arr branches \<Rightarrow>
             (case parseEach h propName branches [] of
                Inl e \<Rightarrow> Inl e
              | Inr conditions \<Rightarrow> Inr (filterPredicates @ [norPred conditions]))
         | _ \<Rightarrow> Inl TypeError)
      else if conditionKey = ''$in'' then
        Inr (filterPredicates @ [inPred h propName conditionValue])
      else if conditionKey = ''$notIn'' then
        Inr (filterPredicates @ [notInPred h propName conditionValue])
      else if conditionKey = ''$contains'' then
        Inr (filterPredicates @ [containsPred h propName conditionValue])
      else if conditionKey = ''$notContains'' then
        Inr (filterPredicates @ [notContainsPred h propName conditionValue])
      else if conditionKey = ''$match'' then
        (case conditionValue of
           Str pattern \<Rightarrow>
             if regexValid h pattern then
               Inr (filterPredicates @ [matchPred h propName (Regex pattern [])])
             else Inl SyntaxError
         | _ \<Rightarrow> Inr (filterPredicates @ [matchPred h propName conditionValue]))
      else Inr filterPredicates)"
| "parseEach h propName [] conditions = Inr conditions"
| "parseEach h propName (condition # others) conditions =
     (case parseCondition h propName condition conditions of
        Inl e \<Rightarrow> Inl e
      | Inr conditions' \<Rightarrow> parseEach h propName others conditions')"
  by pat_completeness auto
termination
  by (relation "inv_image (less_than <*lex*> less_than <*lex*> less_than)
    (\<lambda>x. case x of
       Inl (Inl (h, p, c, acc)) \<Rightarrow> (docCost c, 1::nat, 0::nat)
     | Inl (Inr (h, p, kvs, acc)) \<Rightarrow> (entriesCost kvs, 0, length kvs)
     | Inr (Inl (h, p, k, v, acc)) \<Rightarrow> (entryCost v, 0, 0)
     | Inr (Inr (h, p, bs, acc)) \<Rightarrow> (branchesCost bs, 2, length bs))")
    (auto simp: entriesCost_entries_less branchesCost_Arr_less docCost_entryCost_less
          branchesCost_Arr)

declare parseOperator.simps [simp del]

subsection \<open>\<open>parseQueryCondition\<close>, \<open>matchQueryCondition\<close> and \<open>query\<close>\<close>

text \<open>\<open>fns.every((fn) => fn(item))\<close>: stops at the first result that is not truthy.\<close>

fun every :: "predicate list \<Rightarrow> jsval \<Rightarrow> error + bool" where
  "every [] item = Inr True"
| "every (fn # fns) item =
     (case fn item of Inl e \<Rightarrow> Inl e
      | Inr r \<Rightarrow> if truthy r then every fns item else Inr False)"

text \<open>
  The predicates of the document-level \<open>$and\<close>, \<open>$or\<close> and \<open>$nor\<close>: loops
  \<open>for (let fnArray of conditions)\<close> over the compiled branches, each branch tested with
  \<open>every\<close>.
\<close>

fun allBranches :: "predicate list list \<Rightarrow> predicate" where
  "allBranches [] item = Inr (Bool True)"
| "allBranches (fnArray # conditions) item =
     (case every fnArray item of Inl e \<Rightarrow> Inl e
      | Inr b \<Rightarrow> if \<not> b then Inr (Bool False) else allBranches conditions item)"

fun someBranch :: "predicate list list \<Rightarrow> predicate" where
  "someBranch [] item = Inr (Bool False)"
| "someBranch (fnArray # conditions) item =
     (case every fnArray item of Inl e \<Rightarrow> Inl e
      | Inr b \<Rightarrow> if b then Inr (Bool True) else someBranch conditions item)"

fun noBranch :: "predicate list list \<Rightarrow> predicate" where
  "noBranch [] item = Inr (Bool True)"
| "noBranch (fnArray # conditions) item =
     (case every fnArray item of Inl e \<Rightarrow> Inl e
      | Inr b \<Rightarrow> if b then Inr (Bool False) else noBranch conditions item)"

text \<open>The predicate of a nested sub-document, over its compiled sub-predicates.\<close>

definition nestedPred :: "host \<Rightarrow> string \<Rightarrow> predicate list \<Rightarrow> predicate" where
  "nestedPred h keyOrPropName subFilterPredicates item =
     (case getProp h item keyOrPropName of Inl e \<Rightarrow> Inl e
      | Inr v \<Rightarrow>
          if v = Undefined \<or> v = Null then Inr (Bool False)
          else (case every subFilterPredicates v of Inl e \<Rightarrow> Inl e
                | Inr b \<Rightarrow> Inr (Bool b)))"

text \<open>The predicate of a literal: \<open>item[keyOrPropName] === conditionValue\<close>.\<close>

definition literalPred :: "host \<Rightarrow> string \<Rightarrow> jsval \<Rightarrow> predicate" where
  "literalPred h keyOrPropName conditionValue item =
     (case getProp h item keyOrPropName of Inl e \<Rightarrow> Inl e
      | Inr v \<Rightarrow> Inr (Bool (strictEquals v conditionValue)))"

text \<open>
  \<open>parseQueryCondition(condition)\<close>. \<open>parseKeys\<close> is its loop
  \<open>for (let keyOrPropName in condition)\<close>, carrying \<open>filterPredicates\<close>, \<open>parseKey\<close> the
  body of that loop for one key, and \<open>parseAll\<close> is
  \<open>filterConditions.map(parseQueryCondition)\<close>; \<open>map\<close> exists on arrays only, so any
  other value under a logical key is a \<open>TypeError\<close>.
\<close>

function parseQueryCondition :: "host \<Rightarrow> jsval \<Rightarrow> error + predicate list"
  and parseKeys :: "host \<Rightarrow> (string \<times> jsval) list \<Rightarrow> predicate list \<Rightarrow> error + predicate list"
  and parseKey :: "host \<Rightarrow> string \<Rightarrow> jsval \<Rightarrow> predicate list \<Rightarrow> error + predicate list"
  and parseAll :: "host \<Rightarrow> jsval list \<Rightarrow> error + predicate list list"
where
  "parseQueryCondition h condition =
     (if \<not> truthy condition then Inr [] else parseKeys h (entries condition) [])"
| "parseKeys h [] filterPredicates = Inr filterPredicates"
| "parseKeys h ((keyOrPropName, conditionValue) # rest) filterPredicates =
     (case parseKey h keyOrPropName conditionValue filterPredicates of
        Inl e \<Rightarrow> Inl e
      | Inr filterPredicates' \<Rightarrow> parseKeys h rest filterPredicates')"
| "parseKey h keyOrPropName conditionValue filterPredicates =
     (if keyOrPropName = ''$or'' \<or> keyOrPropName = ''$nor'' \<or> keyOrPropName = ''$and'' then
        (case conditionValue of
           Arr filterConditions \<Rightarrow>
             (case parseAll h filterConditions of
                Inl e \<Rightarrow> Inl e
              | Inr conditions \<Rightarrow>
                  if keyOrPropName = ''$and'' then
                    Inr (filterPredicates @ [allBranches conditions])
                  else if keyOrPropName = ''$or'' then
                    Inr (filterPredicates @ [someBranch conditions])
                  else
                    Inr (filterPredicates @ [noBranch conditions]))
         | _ \<Rightarrow> Inl TypeError)
      else if isCondition conditionValue then
        parseCondition h keyOrPropName conditionValue filterPredicates
      else if isObject conditionValue \<and> truthy conditionValue then
        (case parseQueryCondition h conditionValue of
           Inl e \<Rightarrow> Inl e
         | Inr subFilterPredicates \<Rightarrow>
             Inr (filterPredicates @ [nestedPred h keyOrPropName subFilterPredicates]))
      else Inr (filterPredicates @ [literalPred h keyOrPropName conditionValue]))"
| "parseAll h [] = Inr []"
| "parseAll h (condition # others) =
     (case parseQueryCondition h condition of
        Inl e \<Rightarrow> Inl e
      | Inr fnArray \<Rightarrow>
          (case parseAll h others of
             Inl e \<Rightarrow> Inl e
           | Inr conditions \<Rightarrow> Inr (fnArray # conditions)))"
  by pat_completeness auto
termination
  by (relation "inv_image (less_than <*lex*> less_than <*lex*> less_than)
    (\<lambda>x. case x of
       Inl (Inl (h, c)) \<Rightarrow> (docCost c, 1::nat, 0::nat)
     | Inl (Inr (h, kvs, acc)) \<Rightarrow> (entriesCost kvs, 0, length kvs)
     | Inr (Inl (h, k, v, acc)) \<Rightarrow> (entryCost v, 0, 0)
     | Inr (Inr (h, bs)) \<Rightarrow> (branchesCost bs, 2, length bs))")
    (auto simp: entriesCost_entries_less branchesCost_Arr_less docCost_entryCost_less
          branchesCost_Arr docCost_less_entryCost)

declare parseKey.simps [simp del]

definition matchQueryCondition :: "host \<Rightarrow> jsval \<Rightarrow> jsval \<Rightarrow> error + bool" where
  "matchQueryCondition h data condition =
     (case parseQueryCondition h condition of
        Inl e \<Rightarrow> Inl e
      | Inr filterPredicates \<Rightarrow> every filterPredicates data)"

definition query :: "host \<Rightarrow> jsval \<Rightarrow> error + (jsval \<Rightarrow> error + bool)" where
  "query h condition =
     (case parseQueryCondition h condition of
        Inl e \<Rightarrow> Inl e
      | Inr arr \<Rightarrow> Inr (\<lambda>value. every arr value))"


section \<open>A host for concrete evaluations\<close>

text \<open>
  One implementation of the collaborators, used wherever a statement is evaluated on
  concrete data: deep equality is equality of values, a regular expression without
  metacharacters or flags is a substring search, two dates are known to the date parser,
  only the empty string converts to a number, and every value has its \<open>constructor\<close>
  and the methods of \<open>Object.prototype\<close>.
\<close>

fun constructorName :: "jsval \<Rightarrow> string" where
  "constructorName (Bool b) = ''Boolean''"
| "constructorName (Num n) = ''Number''"
| "constructorName (Str s) = ''String''"
| "constructorName (Date t) = ''Date''"
| "constructorName (Regex s f) = ''RegExp''"
| "constructorName (Arr xs) = ''Array''"
| "constructorName (Func f) = ''Function''"
| "constructorName v = ''Object''"

definition objectPrototypeFunctions :: "string list" where
  "objectPrototypeFunctions =
     [''hasOwnProperty'', ''isPrototypeOf'', ''propertyIsEnumerable'', ''toLocaleString'',
      ''toString'', ''valueOf'']"

definition exampleHost :: host where
  "exampleHost =
     \<lparr> deepEqual = (\<lambda>a b. a = b),
       dateParse = (\<lambda>s. if s = ''1970-01-01'' then Fin 0
                          else if s = ''1970-01-02'' then Fin 86400000 else NaN),
       regexValid = (\<lambda>s. True),
       regexTest = (\<lambda>src fl text. isSubstring src text),
       stringToNumber = (\<lambda>s. if s = [] then Fin 0 else NaN),
       numberToString = (\<lambda>n. ''NaN''),
       dateToString = (\<lambda>t. ''Invalid Date''),
       functionToString = (\<lambda>f. ''function '' @ f @ ''() { [native code] }''),
       builtinProp = (\<lambda>v key. if key = ''constructor'' then Func (constructorName v)
                                else if key \<in> set objectPrototypeFunctions then Func key
                                else Undefined) \<rparr>"

section \<open>Notions used to state the claims\<close>

text \<open>
  The number of predicates one top-level key contributes: one for a logical key, for a
  nested sub-document and for a literal; for an operator condition, one per operator
  key it holds with an operand other than \<open>undefined\<close>.
\<close>

definition emittedBy :: "string \<Rightarrow> jsval \<Rightarrow> nat" where
  "emittedBy keyOrPropName conditionValue =
     (if keyOrPropName \<in> {''$or'', ''$nor'', ''$and''} then 1
      else if isCondition conditionValue then
        length (filter (\<lambda>kv. fst kv \<in> set operatorKeys \<and> snd kv \<noteq> Undefined)
                  (entries conditionValue))
      else 1)"

text \<open>
  The time stamp of a date value, of a numeric time stamp and of a string parsed as a
  date; \<open>before\<close> is \<open><\<close> on time stamps (false when a side is \<open>NaN\<close>).
\<close>

fun timestampOf :: "host \<Rightarrow> jsval \<Rightarrow> jsnum" where
  "timestampOf h (Date t) = t"
| "timestampOf h (Num n) = n"
| "timestampOf h (Str s) = dateParse h s"
| "timestampOf h v = NaN"

definition before :: "jsnum \<Rightarrow> jsnum \<Rightarrow> bool" where
  "before a b = (numLess a b = Some True)"

fun isDateOrNumber :: "jsval \<Rightarrow> bool" where
  "isDateOrNumber (Date t) = True"
| "isDateOrNumber (Num n) = True"
| "isDateOrNumber v = False"

fun isArray :: "jsval \<Rightarrow> bool" where
  "isArray (Arr xs) = True"
| "isArray v = False"

fun isString :: "jsval \<Rightarrow> bool" where
  "isString (Str s) = True"
| "isString v = False"

text \<open>The membership test of \<open>$contains\<close> succeeds: \<open>includes(value, cond)\<close> is truthy.\<close>

definition found :: "host \<Rightarrow> jsval \<Rightarrow> jsval \<Rightarrow> bool" where
  "found h v c = (case includes_js h v c of Inl e \<Rightarrow> False | Inr r \<Rightarrow> truthy r)"

definition searchable :: "host \<Rightarrow> jsval \<Rightarrow> jsval \<Rightarrow> bool" where
  "searchable h v c = (case includes_js h v c of Inl e \<Rightarrow> False | Inr r \<Rightarrow> True)"










text \<open>The result of a parser that was given the array \<open>acc\<close> to extend.\<close>

definition appendTo :: "'a list \<Rightarrow> error + 'a list \<Rightarrow> error + 'a list" where
  "appendTo acc r = (case r of Inl e \<Rightarrow> Inl e | Inr ps \<Rightarrow> Inr (acc @ ps))"

section \<open>Facts about the parsers\<close>

text \<open>Every parser only appends to the array it is given.\<close>

lemma appendTo_simps [simp]:
  "appendTo acc (Inl e) = Inl e"
  "appendTo acc (Inr ps) = Inr (acc @ ps)"
  "appendTo acc (appendTo acc' r) = appendTo (acc @ acc') r"
  "appendTo [] r = r"
  by (simp_all add: appendTo_def split: sum.splits)

lemma parseOperator_acc:
  "parseOperator h p k v acc = appendTo acc (parseOperator h p k v [])"
  by (simp add: parseOperator.simps split: jsval.split sum.split)

lemma parseOperators_acc:
  "parseOperators h p kvs acc = appendTo acc (parseOperators h p kvs [])"
proof (induction kvs arbitrary: acc)
  case Nil
  show ?case by simp
next
  case (Cons kv kvs)
  obtain k v where kv: "kv = (k, v)" by (cases kv)
  show ?case
  proof (cases "parseOperator h p k v []")
    case (Inl e)
    then show ?thesis using kv parseOperator_acc [of h p k v acc] by simp
  next
    case (Inr ps)
    then show ?thesis
      using kv parseOperator_acc [of h p k v acc] Cons.IH [of "acc @ ps"] Cons.IH [of ps]
      by simp
  qed
qed

lemma parseCondition_acc:
  "parseCondition h p c acc = appendTo acc (parseCondition h p c [])"
  using parseOperators_acc [of h p "entries c" acc] by simp

lemma parseEach_acc:
  "parseEach h p bs acc = appendTo acc (parseEach h p bs [])"
proof (induction bs arbitrary: acc)
  case Nil
  show ?case by simp
next
  case (Cons b bs)
  show ?case
  proof (cases "parseCondition h p b []")
    case (Inl e)
    then show ?thesis using parseCondition_acc [of h p b acc] by simp
  next
    case (Inr ps)
    then show ?thesis
      using parseCondition_acc [of h p b acc] Cons.IH [of "acc @ ps"] Cons.IH [of ps]
      by simp
  qed
qed

lemma parseKey_acc:
  "parseKey h k v acc = appendTo acc (parseKey h k v [])"
  using parseCondition_acc [of h k v acc]
  by (simp add: parseKey.simps split: jsval.split sum.split)

lemma parseKeys_acc:
  "parseKeys h kvs acc = appendTo acc (parseKeys h kvs [])"
proof (induction kvs arbitrary: acc)
  case Nil
  show ?case by simp
next
  case (Cons kv kvs)
  obtain k v where kv: "kv = (k, v)" by (cases kv)
  show ?case
  proof (cases "parseKey h k v []")
    case (Inl e)
    then show ?thesis using kv parseKey_acc [of h k v acc] by simp
  next
    case (Inr ps)
    then show ?thesis
      using kv parseKey_acc [of h k v acc] Cons.IH [of "acc @ ps"] Cons.IH [of ps]
      by simp
  qed
qed


lemma every_append:
  "every (ps @ qs) item =
     (case every ps item of Inl e \<Rightarrow> Inl e | Inr b \<Rightarrow> if b then every qs item else Inr False)"
  by (induction ps) (simp_all split: sum.split)

lemma every_True_iff:
  "(every ps item = Inr True) = list_all (\<lambda>p. \<exists>r. p item = Inr r \<and> truthy r) ps"
  by (induction ps) (auto split: sum.splits)

lemma parseKey_field:
  "parseKey h k v acc =
     (if k = ''$or'' \<or> k = ''$nor'' \<or> k = ''$and'' then parseKey h k v acc
      else if isCondition v then parseCondition h k v acc
      else if isObject v \<and> truthy v then
        appendTo acc (case parseQueryCondition h v of Inl e \<Rightarrow> Inl e
                      | Inr subs \<Rightarrow> Inr [nestedPred h k subs])
      else Inr (acc @ [literalPred h k v]))"
  by (simp add: parseKey.simps split: sum.split)

text \<open>
  A lookup sees what every object inherits: on \<open>{}\<close> the key \<open>constructor\<close> yields a
  function, whose text is greater than the empty string.
\<close>

lemma inherited_constructor:
  "getProp exampleHost (Obj []) ''constructor'' = Inr (Func ''Object'')
   \<and> matchQueryCondition exampleHost (Obj [])
        (Obj [(''constructor'', Obj [(''$greater'', Str [])])]) = Inr True"
  by (simp add: matchQueryCondition_def parseKey.simps parseOperator.simps isCondition_def
      hasKey_def operatorKeys_def greaterPred_def getProp_def jsGreater_def relCompare_def
      exampleHost_def)

section \<open>The claims\<close>

text \<open>
  Claim C7: for every item, \<open>matchQueryCondition(item, {})\<close> is true, and
  \<open>parseQueryCondition\<close> applied to an absent (\<open>undefined\<close>) or \<open>null\<close> condition
  returns the empty predicate sequence, so the filter built from it accepts every item.
\<close>

theorem C7_empty_condition:
  "matchQueryCondition h item (Obj []) = Inr True
   \<and> parseQueryCondition h Undefined = Inr []
   \<and> parseQueryCondition h Null = Inr []
   \<and> matchQueryCondition h item Undefined = Inr True
   \<and> matchQueryCondition h item Null = Inr True
   \<and> query h Undefined = Inr (\<lambda>value. Inr True)
   \<and> query h Null = Inr (\<lambda>value. Inr True)
   \<and> query h (Obj []) = Inr (\<lambda>value. Inr True)"
  by (simp add: matchQueryCondition_def query_def fun_eq_iff)

theorem C7_empty_condition_witness:
  "matchQueryCondition exampleHost (Obj [(''name'', Str ''John''), (''age'', Num (Fin 30))]) (Obj []) = Inr True
   \<and> parseQueryCondition exampleHost Undefined = Inr []
   \<and> parseQueryCondition exampleHost Null = Inr []
   \<and> matchQueryCondition exampleHost (Obj [(''name'', Str ''John''), (''age'', Num (Fin 30))]) Undefined = Inr True
   \<and> matchQueryCondition exampleHost (Obj [(''name'', Str ''John''), (''age'', Num (Fin 30))]) Null = Inr True
   \<and> query exampleHost Undefined = Inr (\<lambda>value. Inr True)
   \<and> query exampleHost Null = Inr (\<lambda>value. Inr True)
   \<and> query exampleHost (Obj []) = Inr (\<lambda>value. Inr True)"
  by (rule C7_empty_condition [of exampleHost "Obj [(''name'', Str ''John''), (''age'', Num (Fin 30))]"])

lemma decimal_digits: "set (decimal n) \<subseteq> set ''0123456789''"
proof (induction n rule: decimal.induct)
  case (1 n)
  have d: "\<And>m. m < 10 \<Longrightarrow> ''0123456789'' ! m \<in> set ''0123456789''"
    by (rule nth_mem) simp
  show ?case
  proof (cases "n < 10")
    case True
    then show ?thesis using d [of n] by (subst decimal.simps) simp
  next
    case False
    have "n mod 10 < 10" by simp
    then show ?thesis using False 1 d [of "n mod 10"] by (subst decimal.simps) simp
  qed
qed

lemma operatorKey_dollar: "key \<in> set operatorKeys \<Longrightarrow> CHR ''$'' \<in> set key"
  by (auto simp: operatorKeys_def)

lemma decimal_not_operatorKey: "key \<in> set operatorKeys \<Longrightarrow> key \<noteq> decimal n"
  using decimal_digits [of n] operatorKey_dollar [of key] by auto

lemma operatorKey_not_index: "key \<in> set operatorKeys \<Longrightarrow> key \<notin> decimal ` S"
  using decimal_not_operatorKey [of key] by auto

lemma hasKey_operatorKey:
  assumes "key \<in> set operatorKeys"
  shows "hasKey v key = (\<exists>ops. v = Obj ops \<and> key \<in> fst ` set ops)"
proof -
  have l: "key \<noteq> ''length''" using operatorKey_dollar [OF assms] by auto
  show ?thesis
    using l operatorKey_not_index [OF assms] by (cases v) (simp_all add: hasKey_def)
qed

lemma isCondition_iff:
  "isCondition v = (\<exists>ops. v = Obj ops \<and> (\<exists>key\<in>set operatorKeys. key \<in> fst ` set ops))"
proof (cases v)
  case (Obj ops)
  then show ?thesis
    using hasKey_operatorKey [of _ v] by (auto simp: isCondition_def list_ex_iff)
qed (use hasKey_operatorKey [of _ v] in \<open>auto simp: isCondition_def list_ex_iff\<close>)

lemma parseOperator_skip:
  "(key \<in> set operatorKeys \<longrightarrow> operand = Undefined) \<Longrightarrow> parseOperator h p key operand acc = Inr acc"
  by (cases "operand = Undefined") (simp_all add: parseOperator.simps operatorKeys_def)

lemma parseOperators_skip:
  "\<forall>(key, operand)\<in>set ops. key \<in> set operatorKeys \<longrightarrow> operand = Undefined
   \<Longrightarrow> parseOperators h p ops acc = Inr acc"
  by (induction ops arbitrary: acc) (auto simp: parseOperator_skip)

text \<open>
  Claim C9: a condition value is classified as an operator condition exactly when it is
  an object holding at least one of the sixteen operator keys, whatever the key maps
  to. So when every operator key present maps to \<open>undefined\<close>, as in
  \<open>{age: {$equal: undefined}}\<close>, the field contributes no predicate at all and
  \<open>matchQueryCondition\<close> returns true for every item.
\<close>

theorem C9_operator_shape_by_key_presence:
  "(isCondition v = (\<exists>ops. v = Obj ops \<and> (\<exists>key\<in>set operatorKeys. key \<in> fst ` set ops)))
   \<and> length operatorKeys = 16 \<and> distinct operatorKeys
   \<and> (keyOrPropName \<notin> {''$or'', ''$nor'', ''$and''}
       \<and> (\<exists>key\<in>set operatorKeys. key \<in> fst ` set ops)
       \<and> (\<forall>(key, operand)\<in>set ops. key \<in> set operatorKeys \<longrightarrow> operand = Undefined)
      \<longrightarrow> isCondition (Obj ops)
          \<and> parseQueryCondition h (Obj [(keyOrPropName, Obj ops)]) = Inr []
          \<and> matchQueryCondition h item (Obj [(keyOrPropName, Obj ops)]) = Inr True)"
proof (intro conjI impI)
  show "isCondition v = (\<exists>ops. v = Obj ops \<and> (\<exists>key\<in>set operatorKeys. key \<in> fst ` set ops))"
    by (rule isCondition_iff)
  show "length operatorKeys = 16" by (simp add: operatorKeys_def)
  show "distinct operatorKeys" by (simp add: operatorKeys_def)
next
  assume a: "keyOrPropName \<notin> {''$or'', ''$nor'', ''$and''}
       \<and> (\<exists>key\<in>set operatorKeys. key \<in> fst ` set ops)
       \<and> (\<forall>(key, operand)\<in>set ops. key \<in> set operatorKeys \<longrightarrow> operand = Undefined)"
  then show c: "isCondition (Obj ops)" by (simp add: isCondition_iff)
  have "parseOperators h keyOrPropName ops [] = Inr []"
    using a by (intro parseOperators_skip) simp
  then show p: "parseQueryCondition h (Obj [(keyOrPropName, Obj ops)]) = Inr []"
    using a c by (simp add: parseKey.simps)
  show "matchQueryCondition h item (Obj [(keyOrPropName, Obj ops)]) = Inr True"
    unfolding matchQueryCondition_def p by simp
qed

theorem C9_operator_shape_witness:
  "isCondition (Obj [(''$equal'', Undefined)])
   \<and> \<not> isCondition (Obj [(''equal'', Num (Fin 30))])
   \<and> parseQueryCondition exampleHost (Obj [(''age'', Obj [(''$equal'', Undefined)])]) = Inr []
   \<and> matchQueryCondition exampleHost (Obj [(''age'', Num (Fin 30))])
        (Obj [(''age'', Obj [(''$equal'', Undefined)])]) = Inr True"
  using C9_operator_shape_by_key_presence
          [of "Obj [(''equal'', Num (Fin 30))]" "''age''" "[(''$equal'', Undefined)]" exampleHost
              "Obj [(''age'', Num (Fin 30))]"]
  by (simp add: operatorKeys_def)

lemma parseOperator_defined:
  assumes "v \<noteq> Undefined"
  shows "parseOperator h p ''$less'' v acc = Inr (acc @ [lessPred h p v])"
    and "parseOperator h p ''$greater'' v acc = Inr (acc @ [greaterPred h p v])"
    and "parseOperator h p ''$lessEqual'' v acc = Inr (acc @ [lessEqualPred h p v])"
    and "parseOperator h p ''$greaterEqual'' v acc = Inr (acc @ [greaterEqualPred h p v])"
    and "parseOperator h p ''$not'' v acc = Inr (acc @ [notPred h p v])"
    and "parseOperator h p ''$equal'' v acc = Inr (acc @ [equalPred h p v])"
    and "parseOperator h p ''$dateBefore'' v acc = Inr (acc @ [dateBeforePred h p (operandTime v)])"
    and "parseOperator h p ''$dateAfter'' v acc = Inr (acc @ [dateAfterPred h p (operandTime v)])"
    and "parseOperator h p ''$in'' v acc = Inr (acc @ [inPred h p v])"
    and "parseOperator h p ''$notIn'' v acc = Inr (acc @ [notInPred h p v])"
    and "parseOperator h p ''$contains'' v acc = Inr (acc @ [containsPred h p v])"
    and "parseOperator h p ''$notContains'' v acc = Inr (acc @ [notContainsPred h p v])"
  using assms by (simp_all add: parseOperator.simps)


lemma isCondition_single [simp]:
  "key \<in> set operatorKeys \<Longrightarrow> isCondition (Obj [(key, operand)])"
  by (simp add: isCondition_iff)

lemma parseQueryCondition_field:
  assumes "k \<notin> {''$or'', ''$nor'', ''$and''}" and "isCondition v"
  shows "parseQueryCondition h (Obj [(k, v)]) = parseCondition h k v []"
  using assms by (simp add: parseKey.simps split: sum.split)

lemma every_single:
  "every [p] item = (case p item of Inl e \<Rightarrow> Inl e | Inr r \<Rightarrow> Inr (truthy r))"
  by (simp split: sum.split)



text \<open>
  Claim C8: the predicate emitted for a nested sub-document condition on a field returns
  false when the item's field is \<open>undefined\<close> or \<open>null\<close>, and otherwise is true exactly when
  every recursively compiled sub-predicate holds on the field's value.
\<close>

theorem C8_nested_subdocument:
  assumes "keyOrPropName \<notin> {''$or'', ''$nor'', ''$and''}"
    and "isObject conditionValue" and "truthy conditionValue"
    and "\<not> isCondition conditionValue"
    and "parseQueryCondition h conditionValue = Inr subFilterPredicates"
    and "parseQueryCondition h (Obj rest) = Inr others"
    and "getProp h item keyOrPropName = Inr fieldValue"
  shows "\<exists>p. parseQueryCondition h (Obj ((keyOrPropName, conditionValue) # rest)) = Inr (p # others)
           \<and> (fieldValue = Undefined \<or> fieldValue = Null \<longrightarrow> p item = Inr (Bool False))
           \<and> (fieldValue \<noteq> Undefined \<and> fieldValue \<noteq> Null \<longrightarrow>
                p item = (case every subFilterPredicates fieldValue of
                            Inl e \<Rightarrow> Inl e | Inr b \<Rightarrow> Inr (Bool b))
                \<and> (p item = Inr (Bool True))
                    = (\<forall>q\<in>set subFilterPredicates. \<exists>r. q fieldValue = Inr r \<and> truthy r))"
proof -
  let ?p = "nestedPred h keyOrPropName subFilterPredicates"
  have key: "parseKey h keyOrPropName conditionValue [] = Inr [?p]"
    using assms(1-5) by (simp add: parseKey.simps)
  have rest: "parseKeys h rest [] = Inr others" using assms(6) by simp
  have "parseQueryCondition h (Obj ((keyOrPropName, conditionValue) # rest)) = Inr (?p # others)"
    using key rest parseKeys_acc [of h rest "[?p]"] by simp
  moreover have "fieldValue = Undefined \<or> fieldValue = Null \<longrightarrow> ?p item = Inr (Bool False)"
    using assms(7) by (auto simp: nestedPred_def)
  moreover have "fieldValue \<noteq> Undefined \<and> fieldValue \<noteq> Null \<longrightarrow>
      ?p item = (case every subFilterPredicates fieldValue of
                   Inl e \<Rightarrow> Inl e | Inr b \<Rightarrow> Inr (Bool b))
      \<and> (?p item = Inr (Bool True))
          = (\<forall>q\<in>set subFilterPredicates. \<exists>r. q fieldValue = Inr r \<and> truthy r)"
    using assms(7) every_True_iff [of subFilterPredicates fieldValue]
    by (auto simp: nestedPred_def list_all_iff split: sum.splits)
  ultimately show ?thesis by blast
qed

theorem C8_nested_subdocument_witness:
  "isObject (Obj [(''age'', Num (Fin 30))]) \<and> truthy (Obj [(''age'', Num (Fin 30))])
   \<and> \<not> isCondition (Obj [(''age'', Num (Fin 30))])
   \<and> parseQueryCondition exampleHost (Obj [(''age'', Num (Fin 30))])
        = Inr [literalPred exampleHost ''age'' (Num (Fin 30))]
   \<and> getProp exampleHost (Obj [(''user'', Obj [(''age'', Num (Fin 30))])]) ''user''
        = Inr (Obj [(''age'', Num (Fin 30))])
   \<and> (\<exists>p. parseQueryCondition exampleHost (Obj [(''user'', Obj [(''age'', Num (Fin 30))])]) = Inr [p]
          \<and> p (Obj [(''user'', Obj [(''age'', Num (Fin 30))])]) = Inr (Bool True))"
proof -
  have a1: "''user'' \<notin> {''$or'', ''$nor'', ''$and''}" by simp
  have a2: "isObject (Obj [(''age'', Num (Fin 30))])" by simp
  have a3: "truthy (Obj [(''age'', Num (Fin 30))])" by simp
  have a4: "\<not> isCondition (Obj [(''age'', Num (Fin 30))])"
    by (simp add: isCondition_def hasKey_def operatorKeys_def)
  have a5: "parseQueryCondition exampleHost (Obj [(''age'', Num (Fin 30))])
              = Inr [literalPred exampleHost ''age'' (Num (Fin 30))]"
    by (simp add: parseKey.simps isCondition_def hasKey_def operatorKeys_def)
  have a6: "parseQueryCondition exampleHost (Obj []) = Inr []" by simp
  have a7: "getProp exampleHost (Obj [(''user'', Obj [(''age'', Num (Fin 30))])]) ''user''
              = Inr (Obj [(''age'', Num (Fin 30))])"
    by (simp add: getProp_def exampleHost_def objectPrototypeFunctions_def)
  have l: "literalPred exampleHost ''age'' (Num (Fin 30)) (Obj [(''age'', Num (Fin 30))])
             = Inr (Bool True)"
    by (simp add: literalPred_def getProp_def exampleHost_def objectPrototypeFunctions_def)
  show ?thesis
    using C8_nested_subdocument [OF a1 a2 a3 a4 a5 a6 a7] a2 a3 a4 a5 a7 l by auto
qed

text \<open>
  Claim C1, evaluated. The field-scoped \<open>$or\<close> with the single branch
  \<open>{$greater: 5, $less: 3}\<close> accepts \<open>age = 10\<close>, although the branch as a conjunction
  does not hold; the document-level \<open>$or\<close> over the same branch rejects the item. The
  field-scoped \<open>$nor\<close> rejects the item, the document-level one accepts it.
\<close>

theorem C1_field_scoped_or_flattens_branches:
  "matchQueryCondition exampleHost (Obj [(''age'', Num (Fin 10))])
     (Obj [(''age'', Obj [(''$or'', Arr [Obj [(''$greater'', Num (Fin 5)), (''$less'', Num (Fin 3))]])])])
     = Inr True
   \<and> matchQueryCondition exampleHost (Obj [(''age'', Num (Fin 10))])
     (Obj [(''$or'', Arr [Obj [(''age'', Obj [(''$greater'', Num (Fin 5)), (''$less'', Num (Fin 3))])]])])
     = Inr False
   \<and> matchQueryCondition exampleHost (Obj [(''age'', Num (Fin 10))])
     (Obj [(''age'', Obj [(''$nor'', Arr [Obj [(''$greater'', Num (Fin 5)), (''$less'', Num (Fin 3))]])])])
     = Inr False
   \<and> matchQueryCondition exampleHost (Obj [(''age'', Num (Fin 10))])
     (Obj [(''$nor'', Arr [Obj [(''age'', Obj [(''$greater'', Num (Fin 5)), (''$less'', Num (Fin 3))])]])])
     = Inr True"
  by (simp add: matchQueryCondition_def parseKey.simps parseOperator.simps isCondition_def
      hasKey_def operatorKeys_def greaterPred_def lessPred_def getProp_def exampleHost_def
      objectPrototypeFunctions_def jsGreater_def
      jsLess_def relCompare_def)

text \<open>
  Claim C3, evaluated. With the field value \<open>0\<close> and the candidates \<open>[0]\<close>, the field
  value deep-equals a candidate, yet \<open>$in\<close> does not match and \<open>$notIn\<close> does; the same for
  the empty string and for \<open>false\<close>. A truthy candidate behaves as claimed.
\<close>

theorem C3_in_misses_falsy_candidates:
  "deepEqual exampleHost (Num (Fin 0)) (Num (Fin 0))
   \<and> matchQueryCondition exampleHost (Obj [(''n'', Num (Fin 0))])
        (Obj [(''n'', Obj [(''$in'', Arr [Num (Fin 0)])])]) = Inr False
   \<and> matchQueryCondition exampleHost (Obj [(''n'', Num (Fin 0))])
        (Obj [(''n'', Obj [(''$notIn'', Arr [Num (Fin 0)])])]) = Inr True
   \<and> matchQueryCondition exampleHost (Obj [(''n'', Str [])])
        (Obj [(''n'', Obj [(''$in'', Arr [Num (Fin 1), Str []])])]) = Inr False
   \<and> matchQueryCondition exampleHost (Obj [(''n'', Bool False)])
        (Obj [(''n'', Obj [(''$in'', Arr [Bool False])])]) = Inr False
   \<and> matchQueryCondition exampleHost (Obj [(''n'', Num (Fin 1))])
        (Obj [(''n'', Obj [(''$in'', Arr [Num (Fin 0), Num (Fin 1)])])]) = Inr True"
  by (simp add: matchQueryCondition_def parseKey.simps parseOperator.simps isCondition_def
      hasKey_def operatorKeys_def inPred_def notInPred_def getProp_def exampleHost_def
      objectPrototypeFunctions_def)

lemma parseOperator_length:
  "parseOperator h p key operand acc = Inr ps \<Longrightarrow>
   length ps = length acc + (if key \<in> set operatorKeys \<and> operand \<noteq> Undefined then 1 else 0)"
  by (auto simp: parseOperator.simps operatorKeys_def split: if_splits jsval.splits sum.splits)

lemma parseOperators_length:
  "parseOperators h p ops acc = Inr ps \<Longrightarrow>
   length ps = length acc
     + length (filter (\<lambda>kv. fst kv \<in> set operatorKeys \<and> snd kv \<noteq> Undefined) ops)"
proof (induction ops arbitrary: acc)
  case Nil
  then show ?case by simp
next
  case (Cons kv ops)
  obtain key operand where kv: "kv = (key, operand)" by (cases kv)
  from Cons.prems kv obtain acc' where
    s: "parseOperator h p key operand acc = Inr acc'" and r: "parseOperators h p ops acc' = Inr ps"
    by (auto split: sum.splits)
  show ?case
    using parseOperator_length [OF s] Cons.IH [OF r] kv by simp
qed

lemma parseKey_length:
  assumes "parseKey h k v acc = Inr ps"
  shows "length ps = length acc + emittedBy k v"
proof (cases "k = ''$or'' \<or> k = ''$nor'' \<or> k = ''$and''")
  case True
  then show ?thesis
    using assms by (auto simp: parseKey.simps emittedBy_def split: jsval.splits sum.splits if_splits)
next
  case False
  show ?thesis
  proof (cases "isCondition v")
    case True
    then have "parseOperators h k (entries v) acc = Inr ps"
      using assms False by (simp add: parseKey.simps)
    from parseOperators_length [OF this] show ?thesis
      using True False by (simp add: emittedBy_def)
  next
    case c: False
    then show ?thesis
      using assms False by (auto simp: parseKey.simps emittedBy_def split: sum.splits if_splits)
  qed
qed

lemma parseKeys_length:
  "parseKeys h kvs acc = Inr ps \<Longrightarrow>
   length ps = length acc + sum_list (map (\<lambda>kv. emittedBy (fst kv) (snd kv)) kvs)"
proof (induction kvs arbitrary: acc)
  case Nil
  then show ?case by simp
next
  case (Cons kv kvs)
  obtain k v where kv: "kv = (k, v)" by (cases kv)
  from Cons.prems kv obtain acc' where
    s: "parseKey h k v acc = Inr acc'" and r: "parseKeys h kvs acc' = Inr ps"
    by (auto split: sum.splits)
  show ?case
    using parseKey_length [OF s] Cons.IH [OF r] kv by simp
qed

text \<open>
  Claim C4 fails as stated: the one key \<open>age\<close> of \<open>{age: {$greater: 1, $less: 5}}\<close>
  contributes two predicates.
\<close>

theorem C4_two_predicates_for_one_key:
  "parseQueryCondition exampleHost
     (Obj [(''age'', Obj [(''$greater'', Num (Fin 1)), (''$less'', Num (Fin 5))])])
   = Inr [greaterPred exampleHost ''age'' (Num (Fin 1)), lessPred exampleHost ''age'' (Num (Fin 5))]
   \<and> length (entries (Obj [(''age'', Obj [(''$greater'', Num (Fin 1)), (''$less'', Num (Fin 5))])])) = 1"
  by (simp add: parseKey.simps parseOperator.simps isCondition_def hasKey_def operatorKeys_def)

text \<open>
  Claim C4, amended: for a condition document, \<open>parseQueryCondition\<close> returns one predicate
  for each logical key, each nested-record key and each literal key, and for each
  operator-condition key one predicate per operator key it holds with an operand other
  than \<open>undefined\<close> (none, one or several).
\<close>

theorem C4_predicates_per_key:
  assumes "parseQueryCondition h (Obj kvs) = Inr ps"
  shows "length ps = sum_list (map (\<lambda>kv. emittedBy (fst kv) (snd kv)) kvs)"
  using parseKeys_length [of h kvs "[]" ps] assms by simp

theorem C4_predicates_per_key_witness:
  "parseQueryCondition exampleHost
     (Obj [(''$or'', Arr []), (''user'', Obj [(''name'', Str ''John'')]), (''name'', Str ''John''),
           (''age'', Obj [(''$greater'', Num (Fin 1)), (''$less'', Num (Fin 5)), (''$equal'', Undefined)])])
   = Inr [someBranch [],
          nestedPred exampleHost ''user'' [literalPred exampleHost ''name'' (Str ''John'')],
          literalPred exampleHost ''name'' (Str ''John''),
          greaterPred exampleHost ''age'' (Num (Fin 1)), lessPred exampleHost ''age'' (Num (Fin 5))]
   \<and> length [someBranch [],
          nestedPred exampleHost ''user'' [literalPred exampleHost ''name'' (Str ''John'')],
          literalPred exampleHost ''name'' (Str ''John''),
          greaterPred exampleHost ''age'' (Num (Fin 1)), lessPred exampleHost ''age'' (Num (Fin 5))]
      = 1 + 1 + 1 + 2"
proof -
  have p: "parseQueryCondition exampleHost
     (Obj [(''$or'', Arr []), (''user'', Obj [(''name'', Str ''John'')]), (''name'', Str ''John''),
           (''age'', Obj [(''$greater'', Num (Fin 1)), (''$less'', Num (Fin 5)), (''$equal'', Undefined)])])
   = Inr [someBranch [],
          nestedPred exampleHost ''user'' [literalPred exampleHost ''name'' (Str ''John'')],
          literalPred exampleHost ''name'' (Str ''John''),
          greaterPred exampleHost ''age'' (Num (Fin 1)), lessPred exampleHost ''age'' (Num (Fin 5))]"
    by (simp add: parseKey.simps parseOperator.simps isCondition_def hasKey_def operatorKeys_def)
  show ?thesis
    using C4_predicates_per_key [OF p] p
    by (simp add: emittedBy_def isCondition_def hasKey_def operatorKeys_def)
qed


lemma jsLess_numbers [simp]: "jsLess h (Num a) (Num b) = before a b"
  by (simp add: jsLess_def relCompare_def before_def)

lemma jsGreater_numbers [simp]: "jsGreater h (Num a) (Num b) = before b a"
  by (simp add: jsGreater_def relCompare_def before_def)

lemma operandTime_timestamp: "isDateOrNumber v \<Longrightarrow> operandTime v = Num (timestampOf h v)"
  by (cases v) simp_all

lemma fieldTime_timestamp:
  "isDateOrNumber v \<or> isString v \<Longrightarrow> fieldTime h v = Num (timestampOf h v)"
  by (cases v) simp_all

text \<open>
  Claim C6 fails as stated: an operand given as a string is not normalized. The date
  \<open>1970-01-01T00:00Z\<close> is before \<open>"1970-01-02"\<close>, yet \<open>$dateBefore: "1970-01-02"\<close> rejects
  it, and \<open>$dateAfter: "1970-01-01"\<close> rejects the day after.
\<close>

theorem C6_string_operand_not_normalized:
  "before (timestampOf exampleHost (Date (Fin 0))) (timestampOf exampleHost (Str ''1970-01-02''))
   \<and> matchQueryCondition exampleHost (Obj [(''created'', Date (Fin 0))])
        (Obj [(''created'', Obj [(''$dateBefore'', Str ''1970-01-02'')])]) = Inr False
   \<and> before (timestampOf exampleHost (Str ''1970-01-01'')) (timestampOf exampleHost (Date (Fin 86400000)))
   \<and> matchQueryCondition exampleHost (Obj [(''created'', Date (Fin 86400000))])
        (Obj [(''created'', Obj [(''$dateAfter'', Str ''1970-01-01'')])]) = Inr False"
  by (simp add: before_def matchQueryCondition_def parseKey.simps parseOperator.simps
      isCondition_def hasKey_def operatorKeys_def dateBeforePred_def dateAfterPred_def
      getProp_def exampleHost_def objectPrototypeFunctions_def jsLess_def jsGreater_def
      relCompare_def)

text \<open>
  Claim C6, amended: for \<open>$dateBefore\<close> and \<open>$dateAfter\<close> with an operand that is a date
  value or a numeric time stamp, the operand is taken as its time stamp; the item's field
  value is normalized to a time stamp when it is a date value, a numeric time stamp or a
  string (parsed as a date); the predicate then compares the two time stamps with \<open><\<close>
  (before) or \<open>>\<close> (after).
\<close>

theorem C6_date_comparison:
  assumes "keyOrPropName \<notin> {''$or'', ''$nor'', ''$and''}"
    and "getProp h item keyOrPropName = Inr fieldValue"
    and "isDateOrNumber fieldValue \<or> isString fieldValue"
    and "isDateOrNumber operand"
  shows "matchQueryCondition h item (Obj [(keyOrPropName, Obj [(''$dateBefore'', operand)])])
           = Inr (before (timestampOf h fieldValue) (timestampOf h operand))
       \<and> matchQueryCondition h item (Obj [(keyOrPropName, Obj [(''$dateAfter'', operand)])])
           = Inr (before (timestampOf h operand) (timestampOf h fieldValue))"
proof -
  have d: "operand \<noteq> Undefined" using assms(4) by auto
  have kb: "''$dateBefore'' \<in> set operatorKeys" and ka: "''$dateAfter'' \<in> set operatorKeys"
    by (simp_all add: operatorKeys_def)
  have "parseQueryCondition h (Obj [(keyOrPropName, Obj [(''$dateBefore'', operand)])])
          = parseCondition h keyOrPropName (Obj [(''$dateBefore'', operand)]) []"
    using assms(1) kb by (intro parseQueryCondition_field) simp_all
  then have b: "parseQueryCondition h (Obj [(keyOrPropName, Obj [(''$dateBefore'', operand)])])
          = Inr [dateBeforePred h keyOrPropName (Num (timestampOf h operand))]"
    using d assms(4) by (simp add: parseOperator_defined operandTime_timestamp [of operand h])
  have "parseQueryCondition h (Obj [(keyOrPropName, Obj [(''$dateAfter'', operand)])])
          = parseCondition h keyOrPropName (Obj [(''$dateAfter'', operand)]) []"
    using assms(1) ka by (intro parseQueryCondition_field) simp_all
  then have a: "parseQueryCondition h (Obj [(keyOrPropName, Obj [(''$dateAfter'', operand)])])
          = Inr [dateAfterPred h keyOrPropName (Num (timestampOf h operand))]"
    using d assms(4) by (simp add: parseOperator_defined operandTime_timestamp [of operand h])
  show ?thesis
    unfolding matchQueryCondition_def a b
    using assms(2) fieldTime_timestamp [OF assms(3), of h]
    by (simp add: dateBeforePred_def dateAfterPred_def)
qed

theorem C6_date_comparison_witness:
  "getProp exampleHost (Obj [(''created'', Str ''1970-01-01'')]) ''created''
     = Inr (Str ''1970-01-01'')
   \<and> isString (Str ''1970-01-01'') \<and> isDateOrNumber (Date (Fin 86400000))
   \<and> matchQueryCondition exampleHost (Obj [(''created'', Str ''1970-01-01'')])
        (Obj [(''created'', Obj [(''$dateBefore'', Date (Fin 86400000))])]) = Inr True
   \<and> matchQueryCondition exampleHost (Obj [(''created'', Str ''1970-01-01'')])
        (Obj [(''created'', Obj [(''$dateAfter'', Date (Fin 86400000))])]) = Inr False"
proof -
  have a1: "''created'' \<notin> {''$or'', ''$nor'', ''$and''}" by simp
  have a2: "getProp exampleHost (Obj [(''created'', Str ''1970-01-01'')]) ''created''
              = Inr (Str ''1970-01-01'')"
    by (simp add: getProp_def exampleHost_def objectPrototypeFunctions_def)
  have a3: "isDateOrNumber (Str ''1970-01-01'') \<or> isString (Str ''1970-01-01'')" by simp
  have a4: "isDateOrNumber (Date (Fin 86400000))" by simp
  show ?thesis
    using C6_date_comparison [OF a1 a2 a3 a4] a2
    by (simp add: before_def exampleHost_def)
qed

lemma includesAll_found:
  "list_all (searchable h v) cs \<Longrightarrow> includesAll h v cs = Inr (Bool (list_all (found h v) cs))"
  by (induction cs) (auto simp: found_def searchable_def split: sum.splits)

lemma includesNone_found:
  "list_all (searchable h v) cs \<Longrightarrow>
   includesNone h v cs = Inr (Bool (list_all (\<lambda>c. \<not> found h v c) cs))"
  by (induction cs) (auto simp: found_def searchable_def split: sum.splits)

lemma parse_contains:
  assumes "k \<notin> {''$or'', ''$nor'', ''$and''}" and "operand \<noteq> Undefined"
  shows "parseQueryCondition h (Obj [(k, Obj [(''$contains'', operand)])])
           = Inr [containsPred h k operand]"
    and "parseQueryCondition h (Obj [(k, Obj [(''$notContains'', operand)])])
           = Inr [notContainsPred h k operand]"
proof -
  have kc: "''$contains'' \<in> set operatorKeys" and kn: "''$notContains'' \<in> set operatorKeys"
    by (simp_all add: operatorKeys_def)
  have "parseQueryCondition h (Obj [(k, Obj [(''$contains'', operand)])])
          = parseCondition h k (Obj [(''$contains'', operand)]) []"
    using assms(1) kc by (intro parseQueryCondition_field) simp_all
  then show "parseQueryCondition h (Obj [(k, Obj [(''$contains'', operand)])])
           = Inr [containsPred h k operand]"
    using assms(2) by (simp add: parseOperator_defined)
  have "parseQueryCondition h (Obj [(k, Obj [(''$notContains'', operand)])])
          = parseCondition h k (Obj [(''$notContains'', operand)]) []"
    using assms(1) kn by (intro parseQueryCondition_field) simp_all
  then show "parseQueryCondition h (Obj [(k, Obj [(''$notContains'', operand)])])
           = Inr [notContainsPred h k operand]"
    using assms(2) by (simp add: parseOperator_defined)
qed

text \<open>
  Claim C2 fails as stated: with the field value \<open>["a"]\<close> and the operand
  \<open>["a", "b"]\<close>, \<open>$contains\<close> is false (\<open>"b"\<close> is missing) and \<open>$notContains\<close> is false too
  (\<open>"a"\<close> is there); with an empty operand sequence both are true.
\<close>

theorem C2_contains_and_notContains_both_false:
  "matchQueryCondition exampleHost (Obj [(''tags'', Arr [Str ''a''])])
     (Obj [(''tags'', Obj [(''$contains'', Arr [Str ''a'', Str ''b''])])]) = Inr False
   \<and> matchQueryCondition exampleHost (Obj [(''tags'', Arr [Str ''a''])])
     (Obj [(''tags'', Obj [(''$notContains'', Arr [Str ''a'', Str ''b''])])]) = Inr False
   \<and> matchQueryCondition exampleHost (Obj [(''tags'', Arr [Str ''a''])])
     (Obj [(''tags'', Obj [(''$contains'', Arr [])])]) = Inr True
   \<and> matchQueryCondition exampleHost (Obj [(''tags'', Arr [Str ''a''])])
     (Obj [(''tags'', Obj [(''$notContains'', Arr [])])]) = Inr True"
  by (simp add: matchQueryCondition_def parseKey.simps parseOperator.simps isCondition_def
      hasKey_def operatorKeys_def containsPred_def notContainsPred_def getProp_def
      objectPrototypeFunctions_def
      exampleHost_def)

text \<open>
  Claim C2, amended: for a field value that is a sequence or a text, and an operand that
  is a single value (not a sequence), the \<open>$notContains\<close> predicate returns exactly the
  boolean negation of what the \<open>$contains\<close> predicate returns (and raises the same error
  when that one raises). For an operand that is a sequence whose elements can all be
  searched for, \<open>$contains\<close> holds iff the membership test succeeds for every element of
  the operand, and \<open>$notContains\<close> holds iff it succeeds for none.
\<close>

theorem C2_notContains_versus_contains:
  assumes "keyOrPropName \<notin> {''$or'', ''$nor'', ''$and''}"
    and "getProp h item keyOrPropName = Inr fieldValue"
    and "isArray fieldValue \<or> isString fieldValue"
    and "operand \<noteq> Undefined"
  shows "(\<not> isArray operand \<longrightarrow>
            notContainsPred h keyOrPropName operand item
              = (case containsPred h keyOrPropName operand item of
                   Inl e \<Rightarrow> Inl e | Inr r \<Rightarrow> Inr (Bool (\<not> truthy r)))
          \<and> matchQueryCondition h item (Obj [(keyOrPropName, Obj [(''$notContains'', operand)])])
              = (case matchQueryCondition h item
                        (Obj [(keyOrPropName, Obj [(''$contains'', operand)])]) of
                   Inl e \<Rightarrow> Inl e | Inr b \<Rightarrow> Inr (\<not> b)))
       \<and> (\<forall>cs. operand = Arr cs \<and> list_all (searchable h fieldValue) cs \<longrightarrow>
            matchQueryCondition h item (Obj [(keyOrPropName, Obj [(''$contains'', operand)])])
              = Inr (list_all (found h fieldValue) cs)
          \<and> matchQueryCondition h item (Obj [(keyOrPropName, Obj [(''$notContains'', operand)])])
              = Inr (list_all (\<lambda>c. \<not> found h fieldValue c) cs))"
proof (intro conjI impI allI)
  assume s: "\<not> isArray operand"
  show n: "notContainsPred h keyOrPropName operand item
              = (case containsPred h keyOrPropName operand item of
                   Inl e \<Rightarrow> Inl e | Inr r \<Rightarrow> Inr (Bool (\<not> truthy r)))"
    using assms(2,3) s
    by (cases fieldValue; cases operand)
       (simp_all add: containsPred_def notContainsPred_def split: sum.splits)
  show "matchQueryCondition h item (Obj [(keyOrPropName, Obj [(''$notContains'', operand)])])
              = (case matchQueryCondition h item
                        (Obj [(keyOrPropName, Obj [(''$contains'', operand)])]) of
                   Inl e \<Rightarrow> Inl e | Inr b \<Rightarrow> Inr (\<not> b))"
    unfolding matchQueryCondition_def parse_contains [OF assms(1,4)]
    by (simp add: n split: sum.splits)
next
  fix cs
  assume a: "operand = Arr cs \<and> list_all (searchable h fieldValue) cs"
  then have c: "containsPred h keyOrPropName operand item
                  = Inr (Bool (list_all (found h fieldValue) cs))"
    using assms(2,3) includesAll_found [of h fieldValue cs]
    by (cases fieldValue) (simp_all add: containsPred_def)
  show "matchQueryCondition h item (Obj [(keyOrPropName, Obj [(''$contains'', operand)])])
              = Inr (list_all (found h fieldValue) cs)"
    unfolding matchQueryCondition_def parse_contains [OF assms(1,4)] by (simp add: c)
next
  fix cs
  assume a: "operand = Arr cs \<and> list_all (searchable h fieldValue) cs"
  then have c: "notContainsPred h keyOrPropName operand item
                  = Inr (Bool (list_all (\<lambda>c. \<not> found h fieldValue c) cs))"
    using assms(2,3) includesNone_found [of h fieldValue cs]
    by (cases fieldValue) (simp_all add: notContainsPred_def)
  show "matchQueryCondition h item (Obj [(keyOrPropName, Obj [(''$notContains'', operand)])])
              = Inr (list_all (\<lambda>c. \<not> found h fieldValue c) cs)"
    unfolding matchQueryCondition_def parse_contains [OF assms(1,4)] by (simp add: c)
qed

theorem C2_notContains_versus_contains_witness:
  "getProp exampleHost (Obj [(''tags'', Arr [Str ''tech'', Str ''javascript''])]) ''tags''
     = Inr (Arr [Str ''tech'', Str ''javascript''])
   \<and> isArray (Arr [Str ''tech'', Str ''javascript'']) \<and> \<not> isArray (Str ''javascript'')
   \<and> matchQueryCondition exampleHost (Obj [(''tags'', Arr [Str ''tech'', Str ''javascript''])])
        (Obj [(''tags'', Obj [(''$contains'', Str ''javascript'')])]) = Inr True
   \<and> matchQueryCondition exampleHost (Obj [(''tags'', Arr [Str ''tech'', Str ''javascript''])])
        (Obj [(''tags'', Obj [(''$notContains'', Str ''javascript'')])]) = Inr False"
proof -
  have a1: "''tags'' \<notin> {''$or'', ''$nor'', ''$and''}" by simp
  have a2: "getProp exampleHost (Obj [(''tags'', Arr [Str ''tech'', Str ''javascript''])]) ''tags''
     = Inr (Arr [Str ''tech'', Str ''javascript''])"
    by (simp add: getProp_def exampleHost_def objectPrototypeFunctions_def)
  have a3: "isArray (Arr [Str ''tech'', Str ''javascript''])
            \<or> isString (Arr [Str ''tech'', Str ''javascript''])" by simp
  have a4: "Str ''javascript'' \<noteq> Undefined" by simp
  have c: "matchQueryCondition exampleHost (Obj [(''tags'', Arr [Str ''tech'', Str ''javascript''])])
        (Obj [(''tags'', Obj [(''$contains'', Str ''javascript'')])]) = Inr True"
    by (simp add: matchQueryCondition_def parseKey.simps parseOperator.simps isCondition_def
      hasKey_def operatorKeys_def containsPred_def getProp_def exampleHost_def
      objectPrototypeFunctions_def)
  show ?thesis
    using C2_notContains_versus_contains [OF a1 a2 a3 a4] a2 c by simp
qed
















end
